theory Spec2Isabelle
  imports Main
begin

section \<open>JavaScript values\<close>

text \<open>
  The values that flow through \<^verbatim>\<open>migrate-asset.js\<close>: what \<^verbatim>\<open>JSON.parse\<close> returns, plus
  \<^verbatim>\<open>undefined\<close>. An object is the list of its own properties, with distinct keys, in
  enumeration order. Numbers are the integers (counts and status codes), below the size
  from which JavaScript prints an exponent; fractions are not needed by this program,
  which never computes with the numbers it reads.
\<close>

datatype jsval =
    JUndefined
  | JNull
  | JBool bool
  | JNum int
  | JStr string
  | JArr "jsval list"
  | JObj "(string \<times> jsval) list"

text \<open>JavaScript truthiness, as used by \<^verbatim>\<open>body ? ... : ...\<close>.\<close>

fun truthy :: "jsval \<Rightarrow> bool" where
  "truthy JUndefined = False"
| "truthy JNull = False"
| "truthy (JBool b) = b"
| "truthy (JNum n) = (n \<noteq> 0)"
| "truthy (JStr s) = (s \<noteq> [])"
| "truthy (JArr xs) = True"
| "truthy (JObj fs) = True"

text \<open>
  Reading a property \<^verbatim>\<open>v.k\<close> for a key that no prototype defines (\<^verbatim>\<open>collection\<close>,
  \<^verbatim>\<open>count\<close>, \<^verbatim>\<open>access_token\<close>): \<open>None\<close> is the \<^verbatim>\<open>TypeError\<close> that JavaScript raises on
  \<^verbatim>\<open>null\<close> and \<^verbatim>\<open>undefined\<close>; on every other value that is not an object holding the key the
  result is \<^verbatim>\<open>undefined\<close>.
\<close>

fun get_prop :: "jsval \<Rightarrow> string \<Rightarrow> jsval option" where
  "get_prop JUndefined k = None"
| "get_prop JNull k = None"
| "get_prop (JObj fs) k = (case map_of fs k of None \<Rightarrow> Some JUndefined | Some v \<Rightarrow> Some v)"
| "get_prop v k = Some JUndefined"

text \<open>
  Writing a property of an object: an existing key keeps its place, a new key goes to the
  end of the enumeration order.
\<close>

fun set_prop :: "(string \<times> jsval) list \<Rightarrow> string \<Rightarrow> jsval \<Rightarrow> (string \<times> jsval) list" where
  "set_prop [] k v = [(k, v)]"
| "set_prop ((k', v') # fs) k v = (if k' = k then (k, v) # fs else (k', v') # set_prop fs k v)"

subsection \<open>Strings\<close>

text \<open>\<^verbatim>\<open>Number.prototype.toString\<close> on a non-negative integer: its decimal digits.\<close>

definition digit :: "nat \<Rightarrow> char" where
  "digit d = ''0123456789'' ! d"

function decimal :: "nat \<Rightarrow> string" where
  "decimal n = (if n < 10 then [digit n] else decimal (n div 10) @ [digit (n mod 10)])"
  by pat_completeness auto
termination
  by (relation "measure id") auto

declare decimal.simps [simp del]

definition decimal_int :: "int \<Rightarrow> string" where
  "decimal_int i = (if i < 0 then CHR ''-'' # decimal (nat (- i)) else decimal (nat i))"

fun join_commas :: "string list \<Rightarrow> string" where
  "join_commas [] = []"
| "join_commas [s] = s"
| "join_commas (s # t # ss) = s @ '','' @ join_commas (t # ss)"

text \<open>
  String conversion, as a template literal \<^verbatim>\<open>`${v}`\<close> performs it. An array is the
  comma-separated conversion of its elements, with \<^verbatim>\<open>null\<close> and \<^verbatim>\<open>undefined\<close> elements
  left empty.
\<close>

fun to_string :: "jsval \<Rightarrow> string" where
  "to_string JUndefined = ''undefined''"
| "to_string JNull = ''null''"
| "to_string (JBool b) = (if b then ''true'' else ''false'')"
| "to_string (JNum n) = decimal_int n"
| "to_string (JStr s) = s"
| "to_string (JArr xs) =
     join_commas (map (\<lambda>x. if x = JNull \<or> x = JUndefined then [] else to_string x) xs)"
| "to_string (JObj fs) = ''[object Object]''"

text \<open>\<^verbatim>\<open>String.prototype.indexOf\<close> for a one-character pattern: \<open>-1\<close> when absent.\<close>

fun indexOf :: "string \<Rightarrow> char \<Rightarrow> int" where
  "indexOf [] c = - 1"
| "indexOf (x # xs) c =
     (if x = c then 0 else (let i = indexOf xs c in if i < 0 then - 1 else i + 1))"

text \<open>
  \<^verbatim>\<open>String.prototype.substring(start, end)\<close>: both arguments are clamped to
  \<open>[0, length]\<close>, swapped when \<open>start > end\<close>, and the characters from the lower index up
  to, but not including, the higher one are returned.
\<close>

definition substring :: "string \<Rightarrow> int \<Rightarrow> int \<Rightarrow> string" where
  "substring s start stop =
     (let n = int (length s);
          a = max 0 (min start n);
          b = max 0 (min stop n);
          lo = min a b;
          hi = max a b
      in take (nat (hi - lo)) (drop (nat lo) s))"

section \<open>The HTTP client\<close>

text \<open>
  The identity providers and the asset services enter the model as one function
  \<open>request\<close> from the options of a call of \<^verbatim>\<open>request(options, callback)\<close> to the way
  that call ends. A server answers the same request in the same way throughout a run.

  The options: header values are strings, except the boolean that \<^verbatim>\<open>requestAssetData\<close>
  puts under \<^verbatim>\<open>x-force-write\<close>.
\<close>

record options =
  opt_url :: string
  opt_headers :: "(string \<times> jsval) list"
  opt_method :: string
  opt_json :: "bool option"
  opt_body :: jsval

text \<open>
  The \<^verbatim>\<open>response\<close> argument of the callback. \<^verbatim>\<open>headers\<close> may be missing, which
  \<^verbatim>\<open>requestAssetData\<close> tests for.
\<close>

record response =
  statusCode :: nat
  headers :: "(string \<times> string) list option"

text \<open>
  The \<^verbatim>\<open>body\<close> argument of the callback: \<^verbatim>\<open>undefined\<close>, or a text. A text is kept as what
  \<^verbatim>\<open>JSON.parse\<close> makes of it: the empty text and a text that is not JSON both raise
  \<^verbatim>\<open>SyntaxError\<close>, a JSON text denotes a value. The program looks at a body in two ways
  only, its truthiness and \<^verbatim>\<open>JSON.parse\<close>.
\<close>

datatype body = NoBody | EmptyText | NotJson | JsonText jsval

fun body_truthy :: "body \<Rightarrow> bool" where
  "body_truthy NoBody = False"
| "body_truthy EmptyText = False"
| "body_truthy NotJson = True"
| "body_truthy (JsonText v) = True"

fun JSON_parse :: "body \<Rightarrow> jsval option" where
  "JSON_parse (JsonText v) = Some v"
| "JSON_parse b = None"

text \<open>
  How one call of \<^verbatim>\<open>request\<close> ends: it throws before returning, or it calls back with
  \<^verbatim>\<open>(error, response, body)\<close>; the flag says whether \<^verbatim>\<open>error\<close> is set.
\<close>

datatype reply = Throws | Callback bool "response option" body

text \<open>
  The state a promise ends in. \<open>Pending\<close>: it is never settled. \<open>Crashed\<close>: the
  callback that should settle it threw; the exception leaves the callback of \<^verbatim>\<open>request\<close>
  uncaught, the promise is never settled and Node ends the process.
\<close>

datatype 'a promise = Resolved 'a | Rejected | Pending | Crashed

section \<open>Token service\<close>

definition tokenOptions :: "string \<Rightarrow> string \<Rightarrow> options" where
  "tokenOptions uaaUrl credentials =
     \<lparr> opt_url = uaaUrl @ ''/oauth/token'',
       opt_headers =
         [(''Authorization'', JStr (''Basic '' @ credentials)),
          (''Content-Type'', JStr ''application/x-www-form-urlencoded'')],
       opt_method = ''POST'',
       opt_json = None,
       opt_body = JStr ''grant_type=client_credentials&response_type=token'' \<rparr>"

text \<open>
  \<^verbatim>\<open>requestToken\<close>, lines 20 to 40. A throwing \<^verbatim>\<open>request\<close> is caught by the promise
  constructor and rejects. \<^verbatim>\<open>JSON.parse(body)\<close> runs inside the callback, with no handler
  around it.
\<close>

definition requestToken :: "(options \<Rightarrow> reply) \<Rightarrow> string \<Rightarrow> string \<Rightarrow> jsval promise" where
  "requestToken request uaaUrl credentials =
     (case request (tokenOptions uaaUrl credentials) of
        Throws \<Rightarrow> Rejected
      | Callback error response body \<Rightarrow>
          if \<not> error \<and> (case response of None \<Rightarrow> False | Some r \<Rightarrow> statusCode r = 200)
          then (case JSON_parse body of None \<Rightarrow> Crashed | Some v \<Rightarrow> Resolved v)
          else Rejected)"

section \<open>Record transport\<close>

record asset_data =
  res_body :: jsval
  res_headers :: "(string \<times> string) list"

text \<open>
  The options \<^verbatim>\<open>requestAssetData\<close> builds, lines 55 to 63. \<open>method\<close> is \<open>None\<close> when
  the caller leaves it out; a body left out is \<open>JUndefined\<close>.
\<close>

definition assetOptions ::
  "string \<Rightarrow> string \<Rightarrow> string \<Rightarrow> string option \<Rightarrow> jsval \<Rightarrow> options" where
  "assetOptions url zoneId token method body =
     \<lparr> opt_url = url,
       opt_headers =
         [(''Predix-Zone-Id'', JStr zoneId),
          (''Authorization'', JStr token),
          (''x-force-write'', JBool (method = Some ''POST''))],
       opt_method = (case method of None \<Rightarrow> ''GET'' | Some m \<Rightarrow> if m = [] then ''GET'' else m),
       opt_json = Some (truthy body),
       opt_body = (if truthy body then body else JNull) \<rparr>"

text \<open>
  The test of line 65 on a response that is present:
  \<^verbatim>\<open>response.statusCode.toString().indexOf('2') !== 0\<close>.
\<close>

definition bad_status :: "response \<Rightarrow> bool" where
  "bad_status r = (indexOf (decimal (statusCode r)) CHR ''2'' \<noteq> 0)"

text \<open>
  \<^verbatim>\<open>requestAssetData\<close>, lines 51 to 80. The \<^verbatim>\<open>try\<close> block encloses the call of
  \<^verbatim>\<open>request\<close>, not the later run of its callback.
\<close>

definition requestAssetData ::
  "(options \<Rightarrow> reply) \<Rightarrow> string \<Rightarrow> string \<Rightarrow> string \<Rightarrow> string option \<Rightarrow> jsval
     \<Rightarrow> asset_data promise" where
  "requestAssetData request url zoneId token method body =
     (case request (assetOptions url zoneId token method body) of
        Throws \<Rightarrow> Rejected
      | Callback error response rbody \<Rightarrow>
          if error \<or> (case response of None \<Rightarrow> False | Some r \<Rightarrow> bad_status r)
          then Rejected
          else
            (case (if body_truthy rbody then JSON_parse rbody else Some JNull) of
               None \<Rightarrow> Crashed
             | Some v \<Rightarrow>
                 Resolved
                   \<lparr> res_body = v,
                     res_headers =
                       (case response of
                          None \<Rightarrow> []
                        | Some r \<Rightarrow> (case headers r of None \<Rightarrow> [] | Some h \<Rightarrow> h)) \<rparr>))"

section \<open>Paginator\<close>

text \<open>Line 96: the next URL cut out of the \<^verbatim>\<open>link\<close> header.\<close>

definition nextUrl :: "string \<Rightarrow> string" where
  "nextUrl link = substring link (indexOf link CHR ''<'' + 1) (indexOf link CHR ''>'' - 1)"

text \<open>
  What the program writes and sends, in the order in which it does so. \<open>Req\<close> is a call
  of \<^verbatim>\<open>request\<close>, \<open>Log\<close> a \<^verbatim>\<open>console.log\<close>, \<open>Err\<close> a \<^verbatim>\<open>console.error\<close>; the
  message carries the values the text is built from. \<open>Unhandled\<close>: a promise is rejected
  and no handler takes the rejection (a \<^verbatim>\<open>then\<close> handler threw \<^verbatim>\<open>TypeError\<close>, or a \<^verbatim>\<open>then\<close>
  was given no second function); no line of the program runs there, and what the promise
  library then prints is not an event of the program. \<open>Uncaught\<close>: an exception leaves a
  callback of \<^verbatim>\<open>request\<close>, which ends the process.
\<close>

datatype message =
    RetrievingOriginToken string
  | RetrievingDestinationToken string
  | TokensOK
  | RetrievingDomainObjects string
  | Found jsval
  | LoadingData jsval
  | Loaded nat jsval
  | FinishedLoading nat
  | Posting nat string
  | PostingChunk nat
  | FinishedPosting nat
  | ErrorOriginToken
  | ErrorDestinationToken
  | ErrorListing
  | ErrorPosting
  | CheckCredentials

datatype event = Req options | Log message | Err message | Unhandled | Uncaught

text \<open>
  \<^verbatim>\<open>instances.concat(response.body)\<close>, line 93: an array argument is spread, any other
  value is appended as one element.
\<close>

definition concat_js :: "jsval list \<Rightarrow> jsval \<Rightarrow> jsval list" where
  "concat_js instances v = (case v of JArr xs \<Rightarrow> instances @ xs | _ \<Rightarrow> instances @ [v])"

text \<open>
  The test of line 95, \<^verbatim>\<open>response.headers && response.headers.link\<close>: the header is
  there and is not the empty string.
\<close>

definition link_of :: "(string \<times> string) list \<Rightarrow> string option" where
  "link_of h =
     (case map_of h ''link'' of None \<Rightarrow> None | Some l \<Rightarrow> if l = [] then None else Some l)"

text \<open>
  Lines 97 to 99: the promise of the outer call is resolved when the promise of the inner
  call is. The \<^verbatim>\<open>then\<close> has no second function, so a rejected inner promise leaves the
  outer one pending.
\<close>

fun nested :: "jsval list promise \<Rightarrow> jsval list promise" where
  "nested (Resolved fullList) = Resolved fullList"
| "nested Rejected = Pending"
| "nested Pending = Pending"
| "nested Crashed = Crashed"

text \<open>
  \<^verbatim>\<open>getDomainObjectInstances\<close>, lines 90 to 107. The recursion follows the links for as
  long as the server sends them; \<open>None\<close> is the run that never ends. The result is the
  state of the returned promise and the events of the whole pagination.
\<close>

partial_function (option) getDomainObjectInstances ::
  "(options \<Rightarrow> reply) \<Rightarrow> string \<Rightarrow> string \<Rightarrow> string \<Rightarrow> jsval list \<Rightarrow> jsval
     \<Rightarrow> (jsval list promise \<times> event list) option" where
  "getDomainObjectInstances request url zoneId token instances target =
     (case requestAssetData request url zoneId token None JUndefined of
        Resolved response \<Rightarrow>
          (let instances' = concat_js instances (res_body response);
               evs = [Req (assetOptions url zoneId token None JUndefined),
                      Log (Loaded (length instances') target)]
           in case link_of (res_headers response) of
                Some link \<Rightarrow>
                  Option.bind
                    (getDomainObjectInstances request (nextUrl link) zoneId token
                       instances' target)
                    (\<lambda>(p, evs').
                       Some (nested p, evs @ evs' @ (if p = Rejected then [Unhandled] else [])))
              | None \<Rightarrow> Some (Resolved instances', evs))
      | Rejected \<Rightarrow> Some (Rejected, [Req (assetOptions url zoneId token None JUndefined)])
      | Pending \<Rightarrow> Some (Pending, [Req (assetOptions url zoneId token None JUndefined)])
      | Crashed \<Rightarrow>
          Some (Crashed, [Req (assetOptions url zoneId token None JUndefined), Uncaught]))"

declare getDomainObjectInstances.simps [code]

section \<open>Batch upload\<close>

definition queryLimit :: nat where
  "queryLimit = 1000"

text \<open>
  \<^verbatim>\<open>_.chunk(array, size)\<close> of lodash: slices of \<open>size\<close> elements, the last one with what
  is left; the empty list for an empty array or a size below one.
\<close>

function chunk :: "'a list \<Rightarrow> nat \<Rightarrow> 'a list list" where
  "chunk xs n = (if xs = [] \<or> n < 1 then [] else take n xs # chunk (drop n xs) n)"
  by pat_completeness auto
termination
  by (relation "measure (\<lambda>(xs, n). length xs)") auto

declare chunk.simps [simp del]

text \<open>
  Line 155, \<^verbatim>\<open>item.migrationDate = new Date()\<close>, in strict mode: the assignment raises
  \<^verbatim>\<open>TypeError\<close> (here \<open>None\<close>) on \<^verbatim>\<open>null\<close>, \<^verbatim>\<open>undefined\<close> and the primitive values. On an
  array it sets a named property, which is no element and is not part of what is sent. The
  date is the second argument: the value the clock gives at that moment.
\<close>

fun stamp :: "jsval \<Rightarrow> jsval \<Rightarrow> jsval option" where
  "stamp (JObj fs) now = Some (JObj (set_prop fs ''migrationDate'' now))"
| "stamp (JArr xs) now = Some (JArr xs)"
| "stamp item now = None"

text \<open>
  \<^verbatim>\<open>chunk.map(...)\<close>, lines 154 to 157. \<open>clock k\<close> is what \<^verbatim>\<open>new Date()\<close> returns
  for the \<open>k\<close>-th instance of the collection.
\<close>

fun mapStamp :: "(nat \<Rightarrow> jsval) \<Rightarrow> nat \<Rightarrow> jsval list \<Rightarrow> jsval list option" where
  "mapStamp clock k [] = Some []"
| "mapStamp clock k (item # items) =
     (case stamp item (clock k) of
        None \<Rightarrow> None
      | Some item' \<Rightarrow>
          (case mapStamp clock (Suc k) items of
             None \<Rightarrow> None
           | Some items' \<Rightarrow> Some (item' # items')))"

text \<open>
  The loop of lines 151 to 158 over the chunks: the promises pushed to \<^verbatim>\<open>promiseList\<close>,
  whether the loop came to its end, and the events. A \<^verbatim>\<open>TypeError\<close> while stamping leaves
  the loop and the handler: the chunk at hand and the later ones are not sent and
  \<^verbatim>\<open>Promise.all\<close> is not reached.
\<close>

fun postChunks ::
  "(options \<Rightarrow> reply) \<Rightarrow> (nat \<Rightarrow> jsval) \<Rightarrow> string \<Rightarrow> string \<Rightarrow> string \<Rightarrow> nat
     \<Rightarrow> jsval list list \<Rightarrow> asset_data promise list \<times> bool \<times> event list" where
  "postChunks request clock url zoneId token k [] = ([], True, [])"
| "postChunks request clock url zoneId token k (c # cs) =
     (case mapStamp clock k c of
        None \<Rightarrow> ([], False, [Log (PostingChunk (length c))])
      | Some items \<Rightarrow>
          (let p = requestAssetData request url zoneId token (Some ''POST'') (JArr items);
               (ps, finished, evs) = postChunks request clock url zoneId token (k + length c) cs
           in (p # ps, finished,
               [Log (PostingChunk (length c)),
                Req (assetOptions url zoneId token (Some ''POST'') (JArr items))] @ evs)))"

text \<open>
  \<^verbatim>\<open>Promise.all(promiseList).then(...)\<close>, lines 159 to 163, with the replies taken in the
  order of the requests: the first rejection is reported, the success of all of them is
  reported, an exception in a callback ends the process. \<open>ok\<close>: no promise so far stays
  pending; \<open>rej\<close>: a rejection has been reported.
\<close>

fun postingDone :: "nat \<Rightarrow> bool \<Rightarrow> bool \<Rightarrow> asset_data promise list \<Rightarrow> event list" where
  "postingDone n ok rej [] = (if ok \<and> \<not> rej then [Log (FinishedPosting n)] else [])"
| "postingDone n ok rej (Resolved r # ps) = postingDone n ok rej ps"
| "postingDone n ok rej (Rejected # ps) =
     (if rej then [] else [Err ErrorPosting]) @ postingDone n ok True ps"
| "postingDone n ok rej (Pending # ps) = postingDone n False rej ps"
| "postingDone n ok rej (Crashed # ps) = [Uncaught]"

text \<open>
  The promises of the requests already sent when the loop was left early: nothing waits
  for them.
\<close>

fun abandoned :: "asset_data promise list \<Rightarrow> event list" where
  "abandoned [] = []"
| "abandoned (Resolved r # ps) = abandoned ps"
| "abandoned (Rejected # ps) = Unhandled # abandoned ps"
| "abandoned (Pending # ps) = abandoned ps"
| "abandoned (Crashed # ps) = [Uncaught]"

text \<open>
  The handler of lines 146 to 164, run with the instances of a collection once its
  pagination is resolved. The size of a chunk, \<^verbatim>\<open>queryLimit\<close> in line 151, is the argument
  \<open>limit\<close>.
\<close>

definition postInstances ::
  "(options \<Rightarrow> reply) \<Rightarrow> (nat \<Rightarrow> jsval) \<Rightarrow> string \<Rightarrow> string \<Rightarrow> string \<Rightarrow> nat
     \<Rightarrow> jsval list \<Rightarrow> event list" where
  "postInstances request clock url zoneId token limit instances =
     [Log (FinishedLoading (length instances)), Log (Posting (length instances) zoneId)] @
     (case postChunks request clock url zoneId token 0 (chunk instances limit) of
        (ps, finished, evs) \<Rightarrow>
          evs @ (if finished then postingDone (length instances) True False ps
                 else Unhandled # abandoned ps))"

section \<open>Migration\<close>

text \<open>The fields of \<^verbatim>\<open>asset-config.json\<close> that the program reads.\<close>

record config =
  originalUaaUrl :: string
  originalUaaCredentials :: string
  originalAssetUrl :: string
  originalAssetZoneId :: string
  destinationUaaUrl :: string
  destinationUaaCredentials :: string
  destinationAssetUrl :: string
  destinationAssetZoneId :: string

text \<open>
  The two module variables of lines 11 and 12, and what \<^verbatim>\<open>Promise.all\<close> of line 134 has
  seen: how many token promises are resolved, whether one is rejected, whether the process
  has ended; \<open>out\<close> collects the events.
\<close>

record token_state =
  originalToken :: string
  destinationToken :: string
  resolved :: nat
  rejected :: bool
  dead :: bool
  out :: "event list"

datatype tenant = Origin | Destination

text \<open>
  The handlers of one token promise, lines 119 to 123 and 128 to 132, followed by what
  \<^verbatim>\<open>Promise.all\<close> does with that promise: it rejects on the first rejection, which runs
  the handler of line 170. Reading \<^verbatim>\<open>access_token\<close> of \<^verbatim>\<open>null\<close> throws inside the \<^verbatim>\<open>then\<close>
  handler and leaves the variable as it was.
\<close>

definition deliver :: "tenant \<Rightarrow> jsval promise \<Rightarrow> token_state \<Rightarrow> token_state" where
  "deliver t p s =
     (if dead s then s
      else case p of
        Resolved tokenResponse \<Rightarrow>
          (case get_prop tokenResponse ''access_token'' of
             None \<Rightarrow> s\<lparr>resolved := resolved s + 1, out := out s @ [Unhandled]\<rparr>
           | Some a \<Rightarrow>
               (case t of
                  Origin \<Rightarrow>
                    s\<lparr>originalToken := ''Bearer '' @ to_string a, resolved := resolved s + 1\<rparr>
                | Destination \<Rightarrow>
                    s\<lparr>destinationToken := ''Bearer '' @ to_string a, resolved := resolved s + 1\<rparr>))
      | Rejected \<Rightarrow>
          s\<lparr>rejected := True,
            out := out s
              @ [Err (case t of Origin \<Rightarrow> ErrorOriginToken | Destination \<Rightarrow> ErrorDestinationToken)]
              @ (if rejected s then [] else [Err CheckCredentials])\<rparr>
      | Pending \<Rightarrow> s
      | Crashed \<Rightarrow> s\<lparr>dead := True, out := out s @ [Uncaught]\<rparr>)"

text \<open>
  \<^verbatim>\<open>_.each(collection, f)\<close> of lodash, the values it visits: the elements of an array, the
  characters of a string, the indices below \<^verbatim>\<open>length\<close> of an object that has a valid
  \<^verbatim>\<open>length\<close>, the property values of any other object, nothing for a number or a boolean.
\<close>

fun each_items :: "jsval \<Rightarrow> jsval list" where
  "each_items (JArr xs) = xs"
| "each_items (JStr s) = map (\<lambda>c. JStr [c]) s"
| "each_items (JObj fs) =
     (case map_of fs ''length'' of
        Some (JNum n) \<Rightarrow>
          if 0 \<le> n \<and> n \<le> 9007199254740991
          then map (\<lambda>i. case map_of fs (decimal i) of None \<Rightarrow> JUndefined | Some v \<Rightarrow> v)
                 [0..<nat n]
          else map snd fs
      | _ \<Rightarrow> map snd fs)"
| "each_items v = []"

text \<open>
  The body of the loop of lines 142 to 165 for one domain object whose \<^verbatim>\<open>collection\<close> and
  \<^verbatim>\<open>count\<close> have been read: the pagination of the origin, then, when its promise is
  resolved, the upload to the destination. The \<^verbatim>\<open>then\<close> of line 146 has no second
  function. \<open>None\<close>: the pagination never ends.
\<close>

definition migrateDomainObject ::
  "config \<Rightarrow> (options \<Rightarrow> reply) \<Rightarrow> (nat \<Rightarrow> jsval) \<Rightarrow> string \<Rightarrow> string \<Rightarrow> jsval \<Rightarrow> jsval
     \<Rightarrow> event list option" where
  "migrateDomainObject cfg request clock originalTok destinationTok collection count =
     (case getDomainObjectInstances request
             (originalAssetUrl cfg @ ''/'' @ to_string collection @ ''?pageSize=''
                @ decimal queryLimit)
             (originalAssetZoneId cfg) originalTok [] count of
        None \<Rightarrow> None
      | Some (p, evs) \<Rightarrow>
          Some
            (Log (LoadingData collection) # evs @
             (case p of
                Resolved instances \<Rightarrow>
                  postInstances request clock
                    (destinationAssetUrl cfg @ ''/'' @ to_string collection)
                    (destinationAssetZoneId cfg) destinationTok queryLimit instances
              | Rejected \<Rightarrow> [Unhandled]
              | Pending \<Rightarrow> []
              | Crashed \<Rightarrow> [])))"

text \<open>
  The loop itself. Each domain object starts a pipeline of its own; the result lists their
  events, one sequence for each, and tells whether the loop was left early: reading
  \<^verbatim>\<open>collection\<close> of \<^verbatim>\<open>null\<close> throws, and the later domain objects are not visited. \<open>i\<close>
  counts the domain objects; \<open>clock i\<close> is the clock as the \<open>i\<close>-th pipeline reads it.
\<close>

fun eachDomainObject ::
  "config \<Rightarrow> (options \<Rightarrow> reply) \<Rightarrow> (nat \<Rightarrow> nat \<Rightarrow> jsval) \<Rightarrow> string \<Rightarrow> string \<Rightarrow> nat
     \<Rightarrow> jsval list \<Rightarrow> event list option list \<times> bool" where
  "eachDomainObject cfg request clock originalTok destinationTok i [] = ([], False)"
| "eachDomainObject cfg request clock originalTok destinationTok i (domainObject # rest) =
     (case get_prop domainObject ''collection'' of
        None \<Rightarrow> ([], True)
      | Some collection \<Rightarrow>
          (case get_prop domainObject ''count'' of
             None \<Rightarrow> ([], True)
           | Some count \<Rightarrow>
               (let (runs, thrown) =
                      eachDomainObject cfg request clock originalTok destinationTok (Suc i) rest
                in (migrateDomainObject cfg request (clock i) originalTok destinationTok
                      collection count # runs,
                    thrown))))"

text \<open>
  A run of the program: the events up to and including the listing of the domain objects,
  and the events of each domain object's pipeline. The pipelines run concurrently; how
  their events interleave is not fixed by the program and is not modelled.
\<close>

record run =
  startup :: "event list"
  pipelines :: "event list option list"

text \<open>
  The handler of lines 135 to 168, run when both token promises are resolved.
\<close>

definition listAndMigrate ::
  "config \<Rightarrow> (options \<Rightarrow> reply) \<Rightarrow> (nat \<Rightarrow> nat \<Rightarrow> jsval) \<Rightarrow> string \<Rightarrow> string \<Rightarrow> run" where
  "listAndMigrate cfg request clock originalTok destinationTok =
     (let evs = [Log TokensOK, Log (RetrievingDomainObjects (originalAssetZoneId cfg)),
                 Req (assetOptions (originalAssetUrl cfg) (originalAssetZoneId cfg) originalTok
                        None JUndefined)]
      in case requestAssetData request (originalAssetUrl cfg) (originalAssetZoneId cfg)
                originalTok None JUndefined of
           Resolved response \<Rightarrow>
             (let domainObjects = res_body response
              in if domainObjects = JNull \<or> domainObjects = JUndefined
                 then \<lparr>startup = evs @ [Unhandled], pipelines = []\<rparr>
                 else
                   (let (runs, thrown) =
                          eachDomainObject cfg request clock originalTok destinationTok 0
                            (each_items domainObjects)
                    in \<lparr>startup = evs @ [Log (Found domainObjects)]
                                   @ (if thrown then [Unhandled] else []),
                        pipelines = runs\<rparr>))
         | Rejected \<Rightarrow> \<lparr>startup = evs @ [Err ErrorListing], pipelines = []\<rparr>
         | Pending \<Rightarrow> \<lparr>startup = evs, pipelines = []\<rparr>
         | Crashed \<Rightarrow> \<lparr>startup = evs @ [Uncaught], pipelines = []\<rparr>)"

text \<open>
  \<^verbatim>\<open>migrate\<close>, lines 112 to 172. Both token requests are sent first. Their replies come
  in either order; \<open>destinationFirst\<close> says which.
\<close>

definition migrate ::
  "config \<Rightarrow> (options \<Rightarrow> reply) \<Rightarrow> (nat \<Rightarrow> nat \<Rightarrow> jsval) \<Rightarrow> bool \<Rightarrow> run" where
  "migrate cfg request clock destinationFirst =
     (let originTokenRequest =
            requestToken request (originalUaaUrl cfg) (originalUaaCredentials cfg);
          destinationTokenRequest =
            requestToken request (destinationUaaUrl cfg) (destinationUaaCredentials cfg);
          s0 = \<lparr>originalToken = [], destinationToken = [], resolved = 0, rejected = False,
                dead = False,
                out = [Log (RetrievingOriginToken (originalAssetZoneId cfg)),
                       Req (tokenOptions (originalUaaUrl cfg) (originalUaaCredentials cfg)),
                       Log (RetrievingDestinationToken (destinationAssetZoneId cfg)),
                       Req (tokenOptions (destinationUaaUrl cfg)
                              (destinationUaaCredentials cfg))]\<rparr>;
          s = (if destinationFirst
               then deliver Origin originTokenRequest
                      (deliver Destination destinationTokenRequest s0)
               else deliver Destination destinationTokenRequest
                      (deliver Origin originTokenRequest s0))
      in if resolved s = 2 \<and> \<not> dead s
         then (let r = listAndMigrate cfg request clock (originalToken s) (destinationToken s)
               in r\<lparr>startup := out s @ startup r\<rparr>)
         else \<lparr>startup = out s, pipelines = []\<rparr>)"

section \<open>Reading a run\<close>

text \<open>The bodies of the \<^verbatim>\<open>POST\<close> requests among some events, in order.\<close>

fun posted :: "event list \<Rightarrow> jsval list" where
  "posted [] = []"
| "posted (Req opts # es) =
     (if opt_method opts = ''POST'' then opt_body opts # posted es else posted es)"
| "posted (e # es) = posted es"

text \<open>The URLs of the \<^verbatim>\<open>GET\<close> requests among some events, in order.\<close>

fun fetched :: "event list \<Rightarrow> string list" where
  "fetched [] = []"
| "fetched (Req opts # es) =
     (if opt_method opts = ''GET'' then opt_url opts # fetched es else fetched es)"
| "fetched (e # es) = fetched es"


text \<open>What \<^verbatim>\<open>console.error\<close> has written.\<close>

fun errors :: "event list \<Rightarrow> message list" where
  "errors [] = []"
| "errors (Err m # es) = m # errors es"
| "errors (e # es) = errors es"

text \<open>
  The rule the specification gives for the continuation link: the text strictly between
  the first \<open><\<close> and the first \<open>>\<close> after it.
\<close>

definition between_brackets :: "string \<Rightarrow> string" where
  "between_brackets link =
     takeWhile (\<lambda>c. c \<noteq> CHR ''>'') (tl (dropWhile (\<lambda>c. c \<noteq> CHR ''<'') link))"

text \<open>
  An origin serves a sequence of pages from a URL on: the request for that URL resolves
  with the first page, each page but the last has a continuation link, and the request for
  the URL that \<^verbatim>\<open>getDomainObjectInstances\<close> takes from it resolves with the page after; the
  last page has no continuation link.
\<close>

fun served ::
  "(options \<Rightarrow> reply) \<Rightarrow> string \<Rightarrow> string \<Rightarrow> string \<Rightarrow> asset_data list \<Rightarrow> bool" where
  "served request zoneId token url [] = False"
| "served request zoneId token url [p] =
     (requestAssetData request url zoneId token None JUndefined = Resolved p
      \<and> link_of (res_headers p) = None)"
| "served request zoneId token url (p # q # ps) =
     (requestAssetData request url zoneId token None JUndefined = Resolved p
      \<and> (case link_of (res_headers p) of
            None \<Rightarrow> False
          | Some link \<Rightarrow> served request zoneId token (nextUrl link) (q # ps)))"

section \<open>Servers for the examples\<close>

text \<open>A server that ends every request in the same way.\<close>

definition always :: "reply \<Rightarrow> options \<Rightarrow> reply" where
  "always r opts = r"

text \<open>A reply with status 200, the given headers and a JSON body; a reply without body.\<close>

definition ok_reply :: "(string \<times> string) list \<Rightarrow> jsval \<Rightarrow> reply" where
  "ok_reply h v = Callback False (Some \<lparr>statusCode = 200, headers = Some h\<rparr>) (JsonText v)"

definition status_reply :: "nat \<Rightarrow> reply" where
  "status_reply n = Callback False (Some \<lparr>statusCode = n, headers = Some []\<rparr>) NoBody"

definition threeInstances :: "jsval list" where
  "threeInstances =
     [JObj [(''uri'', JStr ''/sensors/1'')],
      JObj [(''uri'', JStr ''/sensors/2'')],
      JObj [(''uri'', JStr ''/sensors/3'')]]"

definition sampleConfig :: config where
  "sampleConfig =
     \<lparr> originalUaaUrl = ''https://uaa-a.example'',
       originalUaaCredentials = ''YTpzZWNyZXQ='',
       originalAssetUrl = ''https://asset-a.example'',
       originalAssetZoneId = ''zone-a'',
       destinationUaaUrl = ''https://uaa-b.example'',
       destinationUaaCredentials = ''YjpzZWNyZXQ='',
       destinationAssetUrl = ''https://asset-b.example'',
       destinationAssetZoneId = ''zone-b'' \<rparr>"

definition sampleClock :: "nat \<Rightarrow> nat \<Rightarrow> jsval" where
  "sampleClock i k = JStr ''2019-03-01T12:00:00.000Z''"

text \<open>
  An origin with three sensors on two pages. The first page names the second in its
  \<^verbatim>\<open>link\<close> header; any other URL is not found.
\<close>

definition twoPageServer :: "options \<Rightarrow> reply" where
  "twoPageServer opts =
     (if opt_url opts = ''https://asset-a.example/sensors?pageSize=1000''
      then ok_reply
             [(''link'', ''<https://asset-a.example/sensors?pageSize=1000&page=2>; rel=next'')]
             (JArr [JObj [(''uri'', JStr ''/sensors/1'')], JObj [(''uri'', JStr ''/sensors/2'')]])
      else if opt_url opts = ''https://asset-a.example/sensors?pageSize=1000&page=2''
      then ok_reply [] (JArr [JObj [(''uri'', JStr ''/sensors/3'')]])
      else status_reply 404)"

text \<open>
  Both identity providers give a token. The origin lists two collections; the first page
  of \<^verbatim>\<open>sensors\<close> fails with status 500, \<^verbatim>\<open>pumps\<close> has one instance on one page. The
  destination accepts the upload of \<^verbatim>\<open>pumps\<close> with status 204.
\<close>

definition brokenSensorsServer :: "options \<Rightarrow> reply" where
  "brokenSensorsServer opts =
     (if opt_url opts = ''https://uaa-a.example/oauth/token''
      then ok_reply [] (JObj [(''access_token'', JStr ''tokenA'')])
      else if opt_url opts = ''https://uaa-b.example/oauth/token''
      then ok_reply [] (JObj [(''access_token'', JStr ''tokenB'')])
      else if opt_url opts = ''https://asset-a.example''
      then ok_reply []
             (JArr [JObj [(''collection'', JStr ''sensors''), (''count'', JNum 2)],
                    JObj [(''collection'', JStr ''pumps''), (''count'', JNum 1)]])
      else if opt_url opts = ''https://asset-a.example/sensors?pageSize=1000''
      then status_reply 500
      else if opt_url opts = ''https://asset-a.example/pumps?pageSize=1000''
      then ok_reply [] (JArr [JObj [(''uri'', JStr ''/pumps/1'')]])
      else if opt_url opts = ''https://asset-b.example/pumps'' \<and> opt_method opts = ''POST''
      then status_reply 204
      else status_reply 404)"


section \<open>Strings and status codes\<close>

lemma decimal_nonempty: "decimal n \<noteq> []"
  by (subst decimal.simps) simp

lemma indexOf_zero: "indexOf s c = 0 \<longleftrightarrow> s \<noteq> [] \<and> hd s = c"
  by (cases s) (auto simp: Let_def)

lemma bad_status_iff: "bad_status r \<longleftrightarrow> hd (decimal (statusCode r)) \<noteq> CHR ''2''"
  by (simp add: bad_status_def indexOf_zero decimal_nonempty)

section \<open>The continuation link\<close>

text \<open>
  Claim C1: the next-page URL is exactly the text between the first \<open><\<close> and the first
  \<open>>\<close> after it. The code does not do that. For the header
  \<^verbatim>\<open><https://origin.example/sensors?pageSize=1000&page=2>; rel=next\<close> line 96 yields the
  URL without its last character: \<^verbatim>\<open>substring\<close> already excludes its end index, and the
  code subtracts one from the index of \<open>>\<close> on top of that.
\<close>

theorem nextUrl_drops_last_character:
  "nextUrl ''<https://origin.example/sensors?pageSize=1000&page=2>; rel=next''
     = ''https://origin.example/sensors?pageSize=1000&page=''
   \<and> between_brackets ''<https://origin.example/sensors?pageSize=1000&page=2>; rel=next''
     = ''https://origin.example/sensors?pageSize=1000&page=2''"
  by (simp add: nextUrl_def substring_def between_brackets_def)

text \<open>
  The same holds for every header of that shape: a non-empty URL in angle brackets, with no
  bracket before it. The code returns the URL without its last character.
\<close>

lemma indexOf_first: "c \<notin> set xs \<Longrightarrow> indexOf (xs @ c # ys) c = int (length xs)"
  by (induction xs) (auto simp: Let_def)

lemma nextUrl_butlast:
  assumes "CHR ''<'' \<notin> set pre" "CHR ''>'' \<notin> set pre" "CHR ''>'' \<notin> set u" "u \<noteq> []"
  shows "nextUrl (pre @ CHR ''<'' # u @ CHR ''>'' # post) = butlast u"
    and "between_brackets (pre @ CHR ''<'' # u @ CHR ''>'' # post) = u"
proof -
  let ?link = "pre @ CHR ''<'' # u @ CHR ''>'' # post"
  have lt: "indexOf ?link CHR ''<'' = int (length pre)"
    using assms(1) by (rule indexOf_first)
  have "CHR ''>'' \<notin> set (pre @ CHR ''<'' # u)" using assms(2,3) by simp
  from indexOf_first[OF this, of post]
  have gt: "indexOf ?link CHR ''>'' = int (length pre) + 1 + int (length u)" by simp
  have l: "Suc 0 \<le> length u" using assms(4) by (cases u) simp_all
  have d: "drop (Suc (length pre)) ?link = u @ CHR ''>'' # post" by simp
  have k: "nat (int (length u) - 1) = length u - 1" by arith
  have "nextUrl ?link = take (length u - 1) (drop (Suc (length pre)) ?link)"
    unfolding nextUrl_def substring_def lt gt using l
    by (simp add: Let_def min_def max_def nat_add_distrib k)
  also have "\<dots> = butlast u" unfolding d by (simp add: butlast_conv_take)
  finally show "nextUrl ?link = butlast u" .
  have "dropWhile (\<lambda>c. c \<noteq> CHR ''<'') ?link = CHR ''<'' # u @ CHR ''>'' # post"
    using assms(1) by (auto simp: dropWhile_append3)
  moreover have "takeWhile (\<lambda>c. c \<noteq> CHR ''>'') (u @ CHR ''>'' # post) = u"
    using assms(3) by (auto simp: takeWhile_tail)
  ultimately show "between_brackets ?link = u" by (simp add: between_brackets_def)
qed

section \<open>Token service\<close>

text \<open>
  Claim C2, as the specification states it, fails: the provider answers with status 200
  and the body \<^verbatim>\<open>{}\<close>, which is JSON and holds no access token; \<^verbatim>\<open>requestToken\<close>
  resolves with that object.
\<close>

theorem requestToken_resolves_without_access_token:
  "requestToken
     (always (Callback False (Some \<lparr>statusCode = 200, headers = None\<rparr>) (JsonText (JObj []))))
     ''https://uaa.example'' ''Y2xpZW50OnNlY3JldA==''
     = Resolved (JObj [])
   \<and> get_prop (JObj []) ''access_token'' = Some JUndefined"
  by (simp add: requestToken_def always_def)

text \<open>
  Claim C2, amended: \<^verbatim>\<open>requestToken\<close> resolves, with the parsed body, exactly when the
  provider replies without error, with status 200 and with a body that is JSON, whether or
  not that body holds an access token; it rejects exactly when \<^verbatim>\<open>request\<close> throws, the
  error is set, the response is absent or the status is not 200.
\<close>

theorem requestToken_outcome:
  "(requestToken request uaaUrl credentials = Resolved v) =
     (\<exists>r b. request (tokenOptions uaaUrl credentials) = Callback False (Some r) b
            \<and> statusCode r = 200 \<and> JSON_parse b = Some v)
   \<and> (requestToken request uaaUrl credentials = Rejected) =
     (request (tokenOptions uaaUrl credentials) = Throws
      \<or> (\<exists>r b. request (tokenOptions uaaUrl credentials) = Callback True r b)
      \<or> (\<exists>e b. request (tokenOptions uaaUrl credentials) = Callback e None b)
      \<or> (\<exists>e r b. request (tokenOptions uaaUrl credentials) = Callback e (Some r) b
                  \<and> statusCode r \<noteq> 200))"
  by (auto simp: requestToken_def split: reply.splits option.splits if_splits)

theorem requestToken_outcome_witness:
  "requestToken
     (always (Callback False (Some \<lparr>statusCode = 200, headers = None\<rparr>)
        (JsonText (JObj [(''access_token'', JStr ''abc'')]))))
     ''https://uaa.example'' ''Y2xpZW50OnNlY3JldA==''
     = Resolved (JObj [(''access_token'', JStr ''abc'')])
   \<and> requestToken
     (always (Callback False (Some \<lparr>statusCode = 401, headers = None\<rparr>) NotJson))
     ''https://uaa.example'' ''Y2xpZW50OnNlY3JldA==''
     = Rejected"
  using
    requestToken_outcome [of
      "always (Callback False (Some \<lparr>statusCode = 200, headers = None\<rparr>)
         (JsonText (JObj [(''access_token'', JStr ''abc'')])))"
      "''https://uaa.example''" "''Y2xpZW50OnNlY3JldA==''"
      "JObj [(''access_token'', JStr ''abc'')]"]
    requestToken_outcome [of
      "always (Callback False (Some \<lparr>statusCode = 401, headers = None\<rparr>) NotJson)"
      "''https://uaa.example''" "''Y2xpZW50OnNlY3JldA==''"]
  by (auto simp: always_def)

section \<open>Record transport\<close>

text \<open>
  Claim C3, as the specification states it, fails: with no error and no response the
  test of line 65 is false and the promise is resolved, with a \<^verbatim>\<open>null\<close> body and no
  headers.
\<close>

theorem requestAssetData_resolves_without_response:
  "requestAssetData (always (Callback False None NoBody))
     ''https://origin.example/v1/sensors'' ''zone-a'' ''Bearer abc'' None JUndefined
     = Resolved \<lparr>res_body = JNull, res_headers = []\<rparr>"
  by (simp add: requestAssetData_def always_def)

text \<open>
  Claim C3, amended: \<^verbatim>\<open>requestAssetData\<close> resolves only if the reply carries no error
  and its response, when there is one, has a status code whose first digit is 2; it
  rejects exactly when \<^verbatim>\<open>request\<close> throws, the error is set, or a response is present
  whose status code does not begin with 2. A reply with no error and no response is not
  rejected.
\<close>

theorem requestAssetData_outcome:
  "(requestAssetData request url zoneId token method body = Resolved d \<longrightarrow>
      (\<exists>response rbody.
          request (assetOptions url zoneId token method body) = Callback False response rbody
          \<and> (case response of
                None \<Rightarrow> True
              | Some r \<Rightarrow> hd (decimal (statusCode r)) = CHR ''2'')))
   \<and> (requestAssetData request url zoneId token method body = Rejected) =
       (request (assetOptions url zoneId token method body) = Throws
        \<or> (\<exists>response rbody.
              request (assetOptions url zoneId token method body) = Callback True response rbody)
        \<or> (\<exists>e r rbody.
              request (assetOptions url zoneId token method body) = Callback e (Some r) rbody
              \<and> hd (decimal (statusCode r)) \<noteq> CHR ''2''))
   \<and> (\<forall>rbody. request (assetOptions url zoneId token method body) = Callback False None rbody
         \<longrightarrow> requestAssetData request url zoneId token method body \<noteq> Rejected)"
  by (auto simp: requestAssetData_def bad_status_iff split: reply.splits option.splits if_splits)

theorem requestAssetData_outcome_witness:
  "requestAssetData
     (always (Callback False (Some \<lparr>statusCode = 503, headers = None\<rparr>) NotJson))
     ''https://origin.example/v1/sensors'' ''zone-a'' ''Bearer abc'' None JUndefined
     = Rejected
   \<and> requestAssetData (always (Callback False None NoBody))
     ''https://origin.example/v1/sensors'' ''zone-a'' ''Bearer abc'' None JUndefined
     \<noteq> Rejected"
  using
    requestAssetData_outcome [of
      "always (Callback False (Some \<lparr>statusCode = 503, headers = None\<rparr>) NotJson)"
      "''https://origin.example/v1/sensors''" "''zone-a''" "''Bearer abc''" None JUndefined]
    requestAssetData_outcome [of
      "always (Callback False None NoBody)"
      "''https://origin.example/v1/sensors''" "''zone-a''" "''Bearer abc''" None JUndefined]
  by (auto simp: always_def decimal.simps digit_def)

section \<open>Evaluating the examples\<close>

lemmas run_simps =
  requestAssetData_def requestToken_def assetOptions_def tokenOptions_def bad_status_def
  decimal.simps digit_def link_of_def concat_js_def nextUrl_def substring_def ok_reply_def
  status_reply_def decimal_int_def always_def

section \<open>Paginator\<close>

text \<open>
  Claim C4: over N pages, of which all but the last carry a continuation link,
  \<^verbatim>\<open>getDomainObjectInstances\<close> resolves with the records of all pages in page order,
  after exactly N calls. The code does not do that. The origin has three sensors on two
  pages and the first page links to the second. The second request goes to the URL that
  line 96 cuts one character short, which the origin answers with status 404, and the
  promise of \<^verbatim>\<open>getDomainObjectInstances\<close> stays pending: the inner promise is rejected
  and lines 97 to 99 pass on its resolution only. The defect is that of claim C1.
\<close>

theorem getDomainObjectInstances_misses_second_page:
  "getDomainObjectInstances twoPageServer ''https://asset-a.example/sensors?pageSize=1000''
     ''zone-a'' ''Bearer tokenA'' [] (JNum 3)
   = Some (Pending,
       [Req (assetOptions ''https://asset-a.example/sensors?pageSize=1000''
               ''zone-a'' ''Bearer tokenA'' None JUndefined),
        Log (Loaded 2 (JNum 3)),
        Req (assetOptions ''https://asset-a.example/sensors?pageSize=1000&page=''
               ''zone-a'' ''Bearer tokenA'' None JUndefined),
        Unhandled])"
  by (simp add: getDomainObjectInstances.simps twoPageServer_def run_simps)

text \<open>
  Claim C10: a page that is fetched with success and has no body resolves with a
  \<^verbatim>\<open>null\<close> body, and the paginator appends that \<^verbatim>\<open>null\<close> as one element: it is part of
  the instances that are returned, when this is the last page, or handed to the fetch of
  the next page.
\<close>

theorem page_without_body_appends_null:
  assumes "request (assetOptions url zoneId token None JUndefined) = Callback False (Some r) rbody"
    and "\<not> bad_status r" and "\<not> body_truthy rbody"
  shows "requestAssetData request url zoneId token None JUndefined
           = Resolved \<lparr>res_body = JNull,
                       res_headers = (case headers r of None \<Rightarrow> [] | Some h \<Rightarrow> h)\<rparr>
    \<and> getDomainObjectInstances request url zoneId token instances target
       = (case link_of (case headers r of None \<Rightarrow> [] | Some h \<Rightarrow> h) of
            None \<Rightarrow>
              Some (Resolved (instances @ [JNull]),
                    [Req (assetOptions url zoneId token None JUndefined),
                     Log (Loaded (Suc (length instances)) target)])
          | Some link \<Rightarrow>
              Option.bind
                (getDomainObjectInstances request (nextUrl link) zoneId token
                   (instances @ [JNull]) target)
                (\<lambda>(p, evs').
                   Some (nested p,
                         [Req (assetOptions url zoneId token None JUndefined),
                          Log (Loaded (Suc (length instances)) target)]
                         @ evs' @ (if p = Rejected then [Unhandled] else []))))"
proof -
  have a: "requestAssetData request url zoneId token None JUndefined
           = Resolved \<lparr>res_body = JNull,
                       res_headers = (case headers r of None \<Rightarrow> [] | Some h \<Rightarrow> h)\<rparr>"
    using assms by (simp add: requestAssetData_def)
  show ?thesis
    unfolding a
    by (subst getDomainObjectInstances.simps) (simp add: a concat_js_def split: option.splits)
qed

theorem page_without_body_appends_null_witness:
  "getDomainObjectInstances (always (status_reply 204))
     ''https://asset-a.example/sensors?pageSize=1000'' ''zone-a'' ''Bearer tokenA''
     [JObj [(''uri'', JStr ''/sensors/1'')]] (JNum 2)
   = Some (Resolved [JObj [(''uri'', JStr ''/sensors/1'')], JNull],
           [Req (assetOptions ''https://asset-a.example/sensors?pageSize=1000''
                   ''zone-a'' ''Bearer tokenA'' None JUndefined),
            Log (Loaded 2 (JNum 2))])"
proof -
  have h1: "always (status_reply 204)
              (assetOptions ''https://asset-a.example/sensors?pageSize=1000''
                 ''zone-a'' ''Bearer tokenA'' None JUndefined)
            = Callback False (Some \<lparr>statusCode = 204, headers = Some []\<rparr>) NoBody"
    by (simp add: always_def status_reply_def)
  have h2: "\<not> bad_status \<lparr>statusCode = 204, headers = Some []\<rparr>"
    by (simp add: bad_status_def decimal.simps digit_def)
  have h3: "\<not> body_truthy NoBody" by simp
  from page_without_body_appends_null
    [where request = "always (status_reply 204)"
       and url = "''https://asset-a.example/sensors?pageSize=1000''"
       and zoneId = "''zone-a''" and token = "''Bearer tokenA''"
       and instances = "[JObj [(''uri'', JStr ''/sensors/1'')]]" and target = "JNum 2",
     OF h1 h2 h3]
  show ?thesis by (simp add: link_of_def)
qed

lemma posted_append: "posted (xs @ ys) = posted xs @ posted ys"
  by (induction xs rule: posted.induct) auto

lemma fetched_append: "fetched (xs @ ys) = fetched xs @ fetched ys"
  by (induction xs rule: fetched.induct) auto


text \<open>
  What the paginator does achieve: when the origin serves the pages at the URLs that line
  96 computes, the promise is resolved with the bodies of all pages, appended in page
  order, after one request for each page.
\<close>

lemma pagination_of_served_pages:
  "served request zoneId token url pages \<Longrightarrow>
     \<exists>evs. getDomainObjectInstances request url zoneId token instances target
             = Some (Resolved (foldl concat_js instances (map res_body pages)), evs)
         \<and> length (fetched evs) = length pages
         \<and> hd (fetched evs) = url"
proof (induction request zoneId token url pages arbitrary: instances rule: served.induct)
  case (1 request zoneId token url)
  then show ?case by simp
next
  case (2 request zoneId token url p)
  then show ?case
    by (subst getDomainObjectInstances.simps) (simp add: assetOptions_def Let_def)
next
  case (3 request zoneId token url p q ps)
  from "3.prems" obtain link where
    r: "requestAssetData request url zoneId token None JUndefined = Resolved p"
    and l: "link_of (res_headers p) = Some link"
    and s: "served request zoneId token (nextUrl link) (q # ps)"
    by (auto split: option.splits)
  from "3.IH"[OF l s, of "concat_js instances (res_body p)"] obtain evs where
    e: "getDomainObjectInstances request (nextUrl link) zoneId token
          (concat_js instances (res_body p)) target
        = Some (Resolved (foldl concat_js (concat_js instances (res_body p))
                  (map res_body (q # ps))), evs)"
    and n: "length (fetched evs) = length (q # ps)"
    by blast
  show ?case
    by (subst getDomainObjectInstances.simps)
       (simp add: r l e n assetOptions_def fetched_append Let_def)
qed

lemma foldl_concat_js_arrays:
  "foldl concat_js instances (map JArr recs) = instances @ concat recs"
  by (induction recs arbitrary: instances) (simp_all add: concat_js_def)

text \<open>The pagination sends no \<^verbatim>\<open>POST\<close>.\<close>

lemma pagination_posts_nothing:
  assumes "getDomainObjectInstances request url zoneId token instances target = Some y"
  shows "posted (snd y) = []"
proof (rule getDomainObjectInstances.raw_induct
    [where P = "\<lambda>request url zoneId token instances target y. posted (snd y) = []", OF _ assms])
  fix rec :: "(options \<Rightarrow> reply) \<Rightarrow> string \<Rightarrow> string \<Rightarrow> string \<Rightarrow> jsval list \<Rightarrow> jsval
     \<Rightarrow> (jsval list promise \<times> event list) option"
  fix request url zoneId token instances target y
  assume IH: "\<And>request url zoneId token instances target y.
     rec request url zoneId token instances target = Some y \<Longrightarrow> posted (snd y) = []"
  assume step: "(case requestAssetData request url zoneId token None JUndefined of
        Resolved response \<Rightarrow>
          (let instances' = concat_js instances (res_body response);
               evs = [Req (assetOptions url zoneId token None JUndefined),
                      Log (Loaded (length instances') target)]
           in case link_of (res_headers response) of
                None \<Rightarrow> Some (Resolved instances', evs)
              | Some link \<Rightarrow>
                  Option.bind
                    (rec request (nextUrl link) zoneId token instances' target)
                    (\<lambda>(p, evs').
                       Some (nested p, evs @ evs' @ (if p = Rejected then [Unhandled] else []))))
      | Rejected \<Rightarrow> Some (Rejected, [Req (assetOptions url zoneId token None JUndefined)])
      | Pending \<Rightarrow> Some (Pending, [Req (assetOptions url zoneId token None JUndefined)])
      | Crashed \<Rightarrow>
          Some (Crashed, [Req (assetOptions url zoneId token None JUndefined), Uncaught])) = Some y"
  have g: "opt_method (assetOptions url zoneId token None JUndefined) = ''GET''"
    by (simp add: assetOptions_def)
  show "posted (snd y) = []"
  proof (cases "requestAssetData request url zoneId token None JUndefined")
    case (Resolved response)
    show ?thesis
    proof (cases "link_of (res_headers response)")
      case None
      with step Resolved show ?thesis by (auto simp: g Let_def)
    next
      case (Some link)
      with step Resolved obtain p evs' where
        r: "rec request (nextUrl link) zoneId token (concat_js instances (res_body response)) target
              = Some (p, evs')"
        and y: "snd y = [Req (assetOptions url zoneId token None JUndefined),
                      Log (Loaded (length (concat_js instances (res_body response))) target)]
                    @ evs' @ (if p = Rejected then [Unhandled] else [])"
        by (auto simp: Let_def split: bind_splits)
      from IH[OF r] have "posted evs' = []" by simp
      then show ?thesis unfolding y by (simp add: g posted_append)
    qed
  qed (use step g in auto)
qed

text \<open>
  When the promise of the pagination is resolved, the last page that was fetched came
  without a continuation link.
\<close>

lemma pagination_ends_without_link:
  assumes "getDomainObjectInstances request url zoneId token instances target = Some y"
  shows "\<forall>full. fst y = Resolved full \<longrightarrow>
     fetched (snd y) \<noteq> [] \<and>
     (\<exists>response.
         requestAssetData request (last (fetched (snd y))) zoneId token None JUndefined
           = Resolved response
         \<and> link_of (res_headers response) = None)"
proof (rule getDomainObjectInstances.raw_induct
    [where P = "\<lambda>request url zoneId token instances target y.
       \<forall>full. fst y = Resolved full \<longrightarrow>
         fetched (snd y) \<noteq> [] \<and>
         (\<exists>response.
            requestAssetData request (last (fetched (snd y))) zoneId token None JUndefined
              = Resolved response
            \<and> link_of (res_headers response) = None)", OF _ assms])
  fix rec :: "(options \<Rightarrow> reply) \<Rightarrow> string \<Rightarrow> string \<Rightarrow> string \<Rightarrow> jsval list \<Rightarrow> jsval
     \<Rightarrow> (jsval list promise \<times> event list) option"
  fix request url zoneId token instances target y
  assume IH: "\<And>request url zoneId token instances target y.
     rec request url zoneId token instances target = Some y \<Longrightarrow>
       \<forall>full. fst y = Resolved full \<longrightarrow>
         fetched (snd y) \<noteq> [] \<and>
         (\<exists>response.
            requestAssetData request (last (fetched (snd y))) zoneId token None JUndefined
              = Resolved response
            \<and> link_of (res_headers response) = None)"
  assume step: "(case requestAssetData request url zoneId token None JUndefined of
        Resolved response \<Rightarrow>
          (let instances' = concat_js instances (res_body response);
               evs = [Req (assetOptions url zoneId token None JUndefined),
                      Log (Loaded (length instances') target)]
           in case link_of (res_headers response) of
                None \<Rightarrow> Some (Resolved instances', evs)
              | Some link \<Rightarrow>
                  Option.bind
                    (rec request (nextUrl link) zoneId token instances' target)
                    (\<lambda>(p, evs').
                       Some (nested p, evs @ evs' @ (if p = Rejected then [Unhandled] else []))))
      | Rejected \<Rightarrow> Some (Rejected, [Req (assetOptions url zoneId token None JUndefined)])
      | Pending \<Rightarrow> Some (Pending, [Req (assetOptions url zoneId token None JUndefined)])
      | Crashed \<Rightarrow>
          Some (Crashed, [Req (assetOptions url zoneId token None JUndefined), Uncaught])) = Some y"
  have g: "opt_method (assetOptions url zoneId token None JUndefined) = ''GET''"
          "opt_url (assetOptions url zoneId token None JUndefined) = url"
    by (simp_all add: assetOptions_def)
  show "\<forall>full. fst y = Resolved full \<longrightarrow>
         fetched (snd y) \<noteq> [] \<and>
         (\<exists>response.
            requestAssetData request (last (fetched (snd y))) zoneId token None JUndefined
              = Resolved response
            \<and> link_of (res_headers response) = None)"
  proof (cases "requestAssetData request url zoneId token None JUndefined")
    case (Resolved response)
    show ?thesis
    proof (cases "link_of (res_headers response)")
      case None
      with step Resolved have "snd y = [Req (assetOptions url zoneId token None JUndefined),
          Log (Loaded (length (concat_js instances (res_body response))) target)]"
        by (auto simp: Let_def)
      then have "fetched (snd y) = [url]" by (simp add: g)
      then show ?thesis using Resolved None by simp
    next
      case (Some link)
      with step Resolved obtain p evs' where
        r: "rec request (nextUrl link) zoneId token (concat_js instances (res_body response)) target
              = Some (p, evs')"
        and y1: "fst y = nested p"
        and y2: "snd y = [Req (assetOptions url zoneId token None JUndefined),
                      Log (Loaded (length (concat_js instances (res_body response))) target)]
                    @ evs' @ (if p = Rejected then [Unhandled] else [])"
        by (auto simp: Let_def split: bind_splits)
      show ?thesis
      proof (intro allI impI)
        fix full assume "fst y = Resolved full"
        with y1 have p: "p = Resolved full" by (cases p) auto
        from IH[OF r] p have ne: "fetched evs' \<noteq> []"
          and ex: "\<exists>response.
             requestAssetData request (last (fetched evs')) zoneId token None JUndefined
               = Resolved response
             \<and> link_of (res_headers response) = None" by auto
        have f: "fetched (snd y) = url # fetched evs'"
          unfolding y2 using p by (simp add: g fetched_append)
        show "fetched (snd y) \<noteq> [] \<and>
            (\<exists>response.
               requestAssetData request (last (fetched (snd y))) zoneId token None JUndefined
                 = Resolved response
               \<and> link_of (res_headers response) = None)"
          unfolding f using ne ex by simp
      qed
    qed
  qed (use step in auto)
qed

section \<open>Batch upload\<close>





lemma map_of_set_prop: "key \<noteq> k \<Longrightarrow> map_of (set_prop fs k v) key = map_of fs key"
  by (induction fs k v rule: set_prop.induct) auto

lemma filter_set_prop:
  "filter (\<lambda>p. fst p \<noteq> k) (set_prop fs k v) = filter (\<lambda>p. fst p \<noteq> k) fs"
  by (induction fs k v rule: set_prop.induct) auto

lemma stamp_get_prop:
  "stamp item now = Some item' \<Longrightarrow> key \<noteq> ''migrationDate'' \<Longrightarrow>
     get_prop item' key = get_prop item key"
  by (cases item) (auto simp: map_of_set_prop)

lemma mapStamp_length: "mapStamp clock k xs = Some s \<Longrightarrow> length s = length xs"
  by (induction xs arbitrary: k s) (auto split: option.splits)



lemma mapStamp_nth:
  "mapStamp clock k xs = Some s \<Longrightarrow> j < length xs \<Longrightarrow>
     stamp (xs ! j) (clock (k + j)) = Some (s ! j)"
proof (induction xs arbitrary: k s j)
  case Nil
  then show ?case by simp
next
  case (Cons x xs)
  from Cons.prems(1) obtain x' s' where x': "stamp x (clock k) = Some x'"
    and s': "mapStamp clock (Suc k) xs = Some s'" and e: "s = x' # s'"
    by (auto split: option.splits)
  show ?case
  proof (cases j)
    case 0
    then show ?thesis unfolding e using x' by simp
  next
    case (Suc i)
    with Cons.prems(2) have "i < length xs" by simp
    from Cons.IH[OF s' this] have "stamp (xs ! i) (clock (Suc k + i)) = Some (s' ! i)" .
    then show ?thesis unfolding e Suc by simp
  qed
qed




lemma posted_abandoned: "posted (abandoned ps) = []"
  by (induction ps rule: abandoned.induct) auto

lemma fetched_postChunks:
  "postChunks request clock url zoneId token k cs = (ps, finished, evs) \<Longrightarrow> fetched evs = []"
proof (induction cs arbitrary: k ps finished evs)
  case Nil
  then show ?case by simp
next
  case (Cons c cs)
  show ?case
  proof (cases "mapStamp clock k c")
    case None
    with Cons.prems show ?thesis by auto
  next
    case (Some items)
    obtain ps' finished' evs' where
      r: "postChunks request clock url zoneId token (k + length c) cs = (ps', finished', evs')"
      by (cases "postChunks request clock url zoneId token (k + length c) cs")
    from Cons.IH[OF r] have "fetched evs' = []" .
    with Cons.prems Some r show ?thesis by (auto simp: assetOptions_def)
  qed
qed

lemma fetched_postingDone: "fetched (postingDone n ok rej ps) = []"
  by (induction n ok rej ps rule: postingDone.induct) auto

lemma fetched_abandoned: "fetched (abandoned ps) = []"
  by (induction ps rule: abandoned.induct) auto

lemma fetched_postInstances:
  "fetched (postInstances request clock url zoneId token limit instances) = []"
proof -
  obtain ps finished evs where
    r: "postChunks request clock url zoneId token 0 (chunk instances limit) = (ps, finished, evs)"
    by (cases "postChunks request clock url zoneId token 0 (chunk instances limit)")
  from fetched_postChunks[OF r] have "fetched evs = []" .
  then show ?thesis
    using r
    by (simp add: postInstances_def fetched_append fetched_postingDone fetched_abandoned)
qed



text \<open>
  Claim C9: stamping a record changes its \<^verbatim>\<open>migrationDate\<close> and nothing else. Every
  other property reads as before, and the other properties of an object are the same, in
  the same order.
\<close>

theorem stamping_keeps_other_fields:
  assumes "mapStamp clock k items = Some items'" and "j < length items"
  shows "length items' = length items
    \<and> stamp (items ! j) (clock (k + j)) = Some (items' ! j)
    \<and> (\<forall>key. key \<noteq> ''migrationDate'' \<longrightarrow>
          get_prop (items' ! j) key = get_prop (items ! j) key)
    \<and> (\<forall>fs. items ! j = JObj fs \<longrightarrow>
          (\<exists>fs'. items' ! j = JObj fs'
             \<and> filter (\<lambda>p. fst p \<noteq> ''migrationDate'') fs'
               = filter (\<lambda>p. fst p \<noteq> ''migrationDate'') fs))"
proof -
  have l: "length items' = length items" using assms(1) by (rule mapStamp_length)
  have s: "stamp (items ! j) (clock (k + j)) = Some (items' ! j)"
    using assms by (rule mapStamp_nth)
  have g: "\<forall>key. key \<noteq> ''migrationDate'' \<longrightarrow>
             get_prop (items' ! j) key = get_prop (items ! j) key"
    using stamp_get_prop[OF s] by blast
  have f: "\<forall>fs. items ! j = JObj fs \<longrightarrow>
          (\<exists>fs'. items' ! j = JObj fs'
             \<and> filter (\<lambda>p. fst p \<noteq> ''migrationDate'') fs'
               = filter (\<lambda>p. fst p \<noteq> ''migrationDate'') fs)"
  proof (intro allI impI)
    fix fs assume "items ! j = JObj fs"
    with s have "items' ! j = JObj (set_prop fs ''migrationDate'' (clock (k + j)))" by simp
    then show "\<exists>fs'. items' ! j = JObj fs'
             \<and> filter (\<lambda>p. fst p \<noteq> ''migrationDate'') fs'
               = filter (\<lambda>p. fst p \<noteq> ''migrationDate'') fs"
      using filter_set_prop by blast
  qed
  from l s g f show ?thesis by blast
qed

theorem stamping_keeps_other_fields_witness:
  "get_prop
     ([JObj [(''uri'', JStr ''/sensors/1''), (''migrationDate'', JStr ''2019-03-01T12:00:00.000Z'')],
       JObj [(''uri'', JStr ''/sensors/2''), (''migrationDate'', JStr ''2019-03-01T12:00:00.000Z'')],
       JObj [(''uri'', JStr ''/sensors/3''), (''migrationDate'', JStr ''2019-03-01T12:00:00.000Z'')]]
      ! 1) ''uri''
   = get_prop (threeInstances ! 1) ''uri''"
proof -
  have h1: "mapStamp (sampleClock 0) 0 threeInstances
    = Some
     [JObj [(''uri'', JStr ''/sensors/1''), (''migrationDate'', JStr ''2019-03-01T12:00:00.000Z'')],
      JObj [(''uri'', JStr ''/sensors/2''), (''migrationDate'', JStr ''2019-03-01T12:00:00.000Z'')],
      JObj [(''uri'', JStr ''/sensors/3''), (''migrationDate'', JStr ''2019-03-01T12:00:00.000Z'')]]"
    by (simp add: threeInstances_def sampleClock_def)
  have h2: "1 < length threeInstances" by (simp add: threeInstances_def)
  have h3: "''uri'' \<noteq> ''migrationDate''" by simp
  note c = stamping_keeps_other_fields [OF h1 h2, THEN conjunct2, THEN conjunct2, THEN conjunct1]
  from c [rule_format, OF h3] show ?thesis .
qed

section \<open>One collection\<close>

lemma posted_has_post:
  "opt_method e = ''POST'' \<Longrightarrow> posted (xs @ Req e # ys) \<noteq> []"
  by (simp add: posted_append)

text \<open>
  The events of a pipeline whose pagination ends: those of the pagination, then those of
  the upload.
\<close>

lemma pipeline_events:
  assumes "migrateDomainObject cfg request clock originalTok destinationTok collection count
             = Some evs"
  shows "\<exists>p pevs uevs.
      getDomainObjectInstances request
        (originalAssetUrl cfg @ ''/'' @ to_string collection @ ''?pageSize='' @ decimal queryLimit)
        (originalAssetZoneId cfg) originalTok [] count = Some (p, pevs)
    \<and> evs = Log (LoadingData collection) # pevs @ uevs
    \<and> posted pevs = []
    \<and> fetched uevs = []
    \<and> (\<forall>xs e ys. evs = xs @ Req e # ys \<and> opt_method e = ''POST'' \<longrightarrow> fetched ys = [])
    \<and> (posted evs \<noteq> [] \<longrightarrow>
          (\<exists>instances response.
              p = Resolved instances
            \<and> fetched pevs \<noteq> []
            \<and> requestAssetData request (last (fetched pevs)) (originalAssetZoneId cfg)
                originalTok None JUndefined = Resolved response
            \<and> link_of (res_headers response) = None))"
proof -
  let ?url = "originalAssetUrl cfg @ ''/'' @ to_string collection @ ''?pageSize=''
                @ decimal queryLimit"
  from assms obtain p pevs where
    g: "getDomainObjectInstances request ?url (originalAssetZoneId cfg) originalTok [] count
          = Some (p, pevs)"
    by (auto simp: migrateDomainObject_def split: option.splits)
  define uevs where "uevs =
    (case p of
       Resolved instances \<Rightarrow>
         postInstances request clock (destinationAssetUrl cfg @ ''/'' @ to_string collection)
           (destinationAssetZoneId cfg) destinationTok queryLimit instances
     | Rejected \<Rightarrow> [Unhandled]
     | Pending \<Rightarrow> []
     | Crashed \<Rightarrow> [])"
  have e: "evs = Log (LoadingData collection) # pevs @ uevs"
    using assms g by (simp add: migrateDomainObject_def uevs_def)
  have pp: "posted pevs = []" using pagination_posts_nothing[OF g] by simp
  have fu: "fetched uevs = []"
    unfolding uevs_def by (cases p) (simp_all add: fetched_postInstances)
  have order: "\<forall>xs e ys. evs = xs @ Req e # ys \<and> opt_method e = ''POST'' \<longrightarrow> fetched ys = []"
  proof (intro allI impI)
    fix xs e ys
    assume a: "evs = xs @ Req e # ys \<and> opt_method e = ''POST''"
    then have "(Log (LoadingData collection) # pevs) @ uevs = xs @ (Req e # ys)"
      using e by simp
    then consider
      (left) us where "Log (LoadingData collection) # pevs = xs @ us" "us @ uevs = Req e # ys"
      | (right) us where "(Log (LoadingData collection) # pevs) @ us = xs" "uevs = us @ Req e # ys"
      by (auto simp only: append_eq_append_conv2)
    then show "fetched ys = []"
    proof cases
      case left
      show ?thesis
      proof (cases us)
        case Nil
        with left(2) have "uevs = Req e # ys" by simp
        with fu have "fetched (Req e # ys) = []" by simp
        with a show ?thesis by (simp split: if_splits)
      next
        case (Cons u us')
        with left(2) have "u = Req e" by simp
        with left(1) Cons have "Log (LoadingData collection) # pevs = xs @ Req e # us'" by simp
        then have "posted (Log (LoadingData collection) # pevs) \<noteq> []"
          using a posted_has_post by simp
        with pp show ?thesis by simp
      qed
    next
      case right
      with fu have "fetched (us @ Req e # ys) = []" by simp
      with a show ?thesis by (simp add: fetched_append split: if_splits)
    qed
  qed
  have res: "posted evs \<noteq> [] \<longrightarrow>
          (\<exists>instances response.
              p = Resolved instances
            \<and> fetched pevs \<noteq> []
            \<and> requestAssetData request (last (fetched pevs)) (originalAssetZoneId cfg)
                originalTok None JUndefined = Resolved response
            \<and> link_of (res_headers response) = None)"
  proof
    assume "posted evs \<noteq> []"
    then have "posted uevs \<noteq> []" using e pp by (simp add: posted_append)
    then obtain instances where r: "p = Resolved instances"
      unfolding uevs_def by (cases p) auto
    from pagination_ends_without_link[OF g] r
    show "\<exists>instances response.
              p = Resolved instances
            \<and> fetched pevs \<noteq> []
            \<and> requestAssetData request (last (fetched pevs)) (originalAssetZoneId cfg)
                originalTok None JUndefined = Resolved response
            \<and> link_of (res_headers response) = None"
      by simp
  qed
  from g e pp fu order res show ?thesis by blast
qed

text \<open>
  Claim C8: within the pipeline of one collection no upload is sent before the
  pagination is complete. A pipeline has no events beyond those of a pagination that
  never ends. Otherwise its events are those of the pagination followed by those of the
  upload; the pagination holds no \<^verbatim>\<open>POST\<close>, the upload no \<^verbatim>\<open>GET\<close>, so after a \<^verbatim>\<open>POST\<close> no
  page is fetched any more; and when a \<^verbatim>\<open>POST\<close> is sent at all, the promise of the
  pagination is resolved and the last page fetched had no continuation link.
\<close>

theorem uploads_follow_pagination:
  "case migrateDomainObject cfg request clock originalTok destinationTok collection count of
     None \<Rightarrow>
       getDomainObjectInstances request
         (originalAssetUrl cfg @ ''/'' @ to_string collection @ ''?pageSize=''
            @ decimal queryLimit)
         (originalAssetZoneId cfg) originalTok [] count = None
   | Some evs \<Rightarrow>
       (\<exists>p pevs uevs.
          getDomainObjectInstances request
            (originalAssetUrl cfg @ ''/'' @ to_string collection @ ''?pageSize=''
               @ decimal queryLimit)
            (originalAssetZoneId cfg) originalTok [] count = Some (p, pevs)
        \<and> evs = Log (LoadingData collection) # pevs @ uevs
        \<and> posted pevs = []
        \<and> fetched uevs = []
        \<and> (\<forall>xs e ys. evs = xs @ Req e # ys \<and> opt_method e = ''POST'' \<longrightarrow> fetched ys = [])
        \<and> (posted evs \<noteq> [] \<longrightarrow>
              (\<exists>instances response.
                  p = Resolved instances
                \<and> fetched pevs \<noteq> []
                \<and> requestAssetData request (last (fetched pevs)) (originalAssetZoneId cfg)
                    originalTok None JUndefined = Resolved response
                \<and> link_of (res_headers response) = None)))"
proof (cases "migrateDomainObject cfg request clock originalTok destinationTok collection count")
  case None
  then have "getDomainObjectInstances request
         (originalAssetUrl cfg @ ''/'' @ to_string collection @ ''?pageSize=''
            @ decimal queryLimit)
         (originalAssetZoneId cfg) originalTok [] count = None"
    by (auto simp: migrateDomainObject_def split: option.splits)
  with None show ?thesis by simp
next
  case (Some evs)
  from pipeline_events [OF Some] show ?thesis unfolding Some by simp
qed

theorem uploads_follow_pagination_witness:
  "\<exists>p pevs uevs.
      getDomainObjectInstances brokenSensorsServer
        (originalAssetUrl sampleConfig @ ''/'' @ to_string (JStr ''pumps'') @ ''?pageSize=''
           @ decimal queryLimit)
        (originalAssetZoneId sampleConfig) ''Bearer tokenA'' [] (JNum 1) = Some (p, pevs)
    \<and> [Log (LoadingData (JStr ''pumps'')),
        Req (assetOptions ''https://asset-a.example/pumps?pageSize=1000'' ''zone-a''
               ''Bearer tokenA'' None JUndefined),
        Log (Loaded 1 (JNum 1)),
        Log (FinishedLoading 1),
        Log (Posting 1 ''zone-b''),
        Log (PostingChunk 1),
        Req (assetOptions ''https://asset-b.example/pumps'' ''zone-b'' ''Bearer tokenB''
               (Some ''POST'')
               (JArr [JObj [(''uri'', JStr ''/pumps/1''),
                            (''migrationDate'', JStr ''2019-03-01T12:00:00.000Z'')]])),
        Log (FinishedPosting 1)]
       = Log (LoadingData (JStr ''pumps'')) # pevs @ uevs
    \<and> posted pevs = []
    \<and> fetched uevs = []"
proof -
  have h: "migrateDomainObject sampleConfig brokenSensorsServer (sampleClock 1)
      ''Bearer tokenA'' ''Bearer tokenB'' (JStr ''pumps'') (JNum 1)
    = Some
       [Log (LoadingData (JStr ''pumps'')),
        Req (assetOptions ''https://asset-a.example/pumps?pageSize=1000'' ''zone-a''
               ''Bearer tokenA'' None JUndefined),
        Log (Loaded 1 (JNum 1)),
        Log (FinishedLoading 1),
        Log (Posting 1 ''zone-b''),
        Log (PostingChunk 1),
        Req (assetOptions ''https://asset-b.example/pumps'' ''zone-b'' ''Bearer tokenB''
               (Some ''POST'')
               (JArr [JObj [(''uri'', JStr ''/pumps/1''),
                            (''migrationDate'', JStr ''2019-03-01T12:00:00.000Z'')]])),
        Log (FinishedPosting 1)]"
    by (simp add: migrateDomainObject_def sampleConfig_def brokenSensorsServer_def
          getDomainObjectInstances.simps postInstances_def queryLimit_def chunk.simps
          sampleClock_def run_simps)
  note t = uploads_follow_pagination
    [where cfg = sampleConfig and request = brokenSensorsServer and clock = "sampleClock 1"
       and originalTok = "''Bearer tokenA''" and destinationTok = "''Bearer tokenB''"
       and collection = "JStr ''pumps''" and count = "JNum 1"]
  from t [unfolded h option.case] show ?thesis by blast
qed

section \<open>The whole run\<close>

text \<open>
  Claim C5: a collection whose pagination fails is given up with a message, nothing of it
  is uploaded, and the other collections go on. The code gives no message. The first page
  of \<^verbatim>\<open>sensors\<close> fails with status 500: the pipeline of \<^verbatim>\<open>sensors\<close> ends with a
  rejection that no handler takes, since the \<^verbatim>\<open>then\<close> of line 146 has no second function,
  and \<^verbatim>\<open>console.error\<close> is never called. Nothing of \<^verbatim>\<open>sensors\<close> is uploaded and \<^verbatim>\<open>pumps\<close> is
  migrated, as the claim says.
\<close>

theorem failed_pagination_is_not_reported:
  "pipelines (migrate sampleConfig brokenSensorsServer sampleClock False)
     = [Some [Log (LoadingData (JStr ''sensors'')),
              Req (assetOptions ''https://asset-a.example/sensors?pageSize=1000'' ''zone-a''
                     ''Bearer tokenA'' None JUndefined),
              Unhandled],
        Some [Log (LoadingData (JStr ''pumps'')),
              Req (assetOptions ''https://asset-a.example/pumps?pageSize=1000'' ''zone-a''
                     ''Bearer tokenA'' None JUndefined),
              Log (Loaded 1 (JNum 1)),
              Log (FinishedLoading 1),
              Log (Posting 1 ''zone-b''),
              Log (PostingChunk 1),
              Req (assetOptions ''https://asset-b.example/pumps'' ''zone-b'' ''Bearer tokenB''
                     (Some ''POST'')
                     (JArr [JObj [(''uri'', JStr ''/pumps/1''),
                                  (''migrationDate'', JStr ''2019-03-01T12:00:00.000Z'')]])),
              Log (FinishedPosting 1)]]
   \<and> errors (startup (migrate sampleConfig brokenSensorsServer sampleClock False)) = []"
  by (simp add: migrate_def deliver_def listAndMigrate_def migrateDomainObject_def
        sampleConfig_def brokenSensorsServer_def getDomainObjectInstances.simps
        postInstances_def queryLimit_def chunk.simps sampleClock_def run_simps)





end
